theory Spec2Isabelle
  imports Main
begin

section \<open>Storage, pointers and program outcomes\<close>

text \<open>
  Both programs of the repository are a \<open>main\<close> that works on one heap cell holding an
  \<open>int\<close>. The free store is a function from addresses to the state of the storage there.
  Storage that was released stays marked \<open>Released\<close>: neither program allocates a second
  time, so no address is handed out twice.
\<close>

type_synonym addr = nat

datatype rawptr = nullptr | Ptr addr

datatype cell = Unallocated | Live int | Released

datatype mem_event = Alloc addr | Read addr | Release addr | StaleRead addr

record memory =
  cells :: "addr \<Rightarrow> cell"
  events :: "mem_event list"

text \<open>
  \<open>bad_alloc\<close> is the exception a failed \<open>new\<close> throws. A \<open>fault\<close> is an operation C++
  gives no meaning to (undefined behaviour) at which the process is stopped; the model
  promises nothing about what follows.
\<close>

datatype exn = bad_alloc

datatype fault =
    null_dereference
  | use_after_release addr
  | wild_access addr
  | invalid_delete addr

datatype final = Exit int | Uncaught exn | Undefined fault

text \<open>
  \<open>new int{v}\<close>. The argument \<open>fresh\<close> is what the allocator does at this call:
  \<open>None\<close> when it has no storage (the expression throws \<open>std::bad_alloc\<close>), \<open>Some a\<close>
  when it hands out the storage at \<open>a\<close>. The result of a \<open>new\<close> that returns is
  never the null pointer.
\<close>

fun new_int :: "addr option \<Rightarrow> int \<Rightarrow> memory \<Rightarrow> exn + rawptr \<times> memory" where
  "new_int None v m = Inl bad_alloc"
| "new_int (Some a) v m =
     Inr (Ptr a, m\<lparr>cells := (cells m)(a := Live v), events := events m @ [Alloc a]\<rparr>)"

text \<open>
  \<open>*p\<close> as an rvalue: reads the cell \<open>p\<close> points to. Reading released storage is
  undefined in C++; what happens is up to where the program runs, and is the argument
  \<open>stale\<close>: \<open>None\<close> when the access stops the process (a checked or instrumented run),
  \<open>Some v\<close> when the read goes through and yields whatever value \<open>v\<close> is found there.
  Either way the access is recorded as a \<open>StaleRead\<close>. A read through the null pointer
  or of storage never allocated, which neither program performs, stops the run.
\<close>

fun deref :: "int option \<Rightarrow> rawptr \<Rightarrow> memory \<Rightarrow> (fault + int) \<times> memory" where
  "deref stale nullptr m = (Inl null_dereference, m)"
| "deref stale (Ptr a) m =
     (case cells m a of
        Live v \<Rightarrow> (Inr v, m\<lparr>events := events m @ [Read a]\<rparr>)
      | Released \<Rightarrow>
          (case stale of None \<Rightarrow> Inl (use_after_release a) | Some v \<Rightarrow> Inr v,
           m\<lparr>events := events m @ [StaleRead a]\<rparr>)
      | Unallocated \<Rightarrow> (Inl (wild_access a), m))"

text \<open>\<open>delete p\<close>: nothing for the null pointer, releases a live cell, undefined otherwise.\<close>

fun delete_int :: "rawptr \<Rightarrow> memory \<Rightarrow> fault + memory" where
  "delete_int nullptr m = Inr m"
| "delete_int (Ptr a) m =
     (case cells m a of
        Live v \<Rightarrow> Inr (m\<lparr>cells := (cells m)(a := Released), events := events m @ [Release a]\<rparr>)
      | Released \<Rightarrow> Inl (invalid_delete a)
      | Unallocated \<Rightarrow> Inl (invalid_delete a))"

section \<open>Frames, statements and runs\<close>

text \<open>
  What is written to \<open>std::cout\<close>, one token for each \<open><<\<close>. How an address is
  formatted is left to the implementation, so a printed pointer is kept as the pointer.
\<close>

datatype token = Str string | Address rawptr | Value int | Endl

text \<open>
  The frame of \<open>main\<close>: the free store, the two locals and the output so far. The type
  \<open>'p\<close> of the locals is \<open>rawptr\<close> in the unmanaged demo and \<open>unique_ptr\<close> in the scoped
  one. A local that is not declared yet, or already destroyed, holds null.
\<close>

record 'p frame =
  mem :: memory
  pointer1 :: 'p
  pointer2 :: 'p
  cout :: "token list"

datatype 's result = Continue 's | Halt final 's

fun and_then :: "'s result \<Rightarrow> ('s \<Rightarrow> 's result) \<Rightarrow> 's result" where
  "and_then (Continue s) f = f s"
| "and_then (Halt r s) f = Halt r s"

definition put :: "token \<Rightarrow> 'p frame \<Rightarrow> 'p frame" where
  "put t s = s\<lparr>cout := cout s @ [t]\<rparr>"

text \<open>\<open>... << *p\<close>: the operands of a chain of \<open><<\<close> are evaluated from left to right.\<close>

definition put_deref :: "int option \<Rightarrow> rawptr \<Rightarrow> 'p frame \<Rightarrow> 'p frame result" where
  "put_deref stale p s =
     (case deref stale p (mem s) of
        (Inl f, m) \<Rightarrow> Halt (Undefined f) (s\<lparr>mem := m\<rparr>)
      | (Inr v, m) \<Rightarrow> Continue (put (Value v) (s\<lparr>mem := m\<rparr>)))"

text \<open>
  A run executes the statements of \<open>main\<close> in order, from a frame. \<open>reached\<close> lists the
  frames at the statement boundaries the run came to: \<open>reached r ! k\<close> is the frame in
  which statement \<open>k\<close> (counted from 0) started, after the \<open>k\<close> statements before it
  completed. \<open>stopped\<close> is the frame in which the run ended and \<open>outcome\<close> how it ended;
  \<open>None\<close> would be control reaching the end of the list, which no \<open>main\<close> here does.
\<close>

record 's run =
  reached :: "'s list"
  stopped :: 's
  outcome :: "final option"

fun exec :: "('s \<Rightarrow> 's result) list \<Rightarrow> 's \<Rightarrow> 's run" where
  "exec [] s = \<lparr>reached = [s], stopped = s, outcome = None\<rparr>"
| "exec (c # cs) s =
     (case c s of
        Halt f s' \<Rightarrow> \<lparr>reached = [s], stopped = s', outcome = Some f\<rparr>
      | Continue s' \<Rightarrow> (let r = exec cs s' in r\<lparr>reached := s # reached r\<rparr>))"

definition at_point :: "nat \<Rightarrow> 's run \<Rightarrow> 's option" where
  "at_point k r = (if k < length (reached r) then Some (reached r ! k) else None)"

text \<open>
  What a run depends on besides the program text: what the allocator does at the one
  allocation, and what a read of released storage does.
\<close>

record platform =
  on_new :: "addr option"
  on_stale :: "int option"

definition empty_memory :: memory where
  "empty_memory = \<lparr>cells = (\<lambda>a. Unallocated), events = []\<rparr>"

definition newline :: string where
  "newline = [CHR 0x0A]"

section \<open>The unmanaged demo: \<open>dangling_pointer.cpp\<close>\<close>

text \<open>
  The model is of \<open>main\<close> (lines 7 to 30 of the file). The lines after it (32 to 36) are
  a licence note in Markdown, not part of the program.
\<close>

definition dangling_start :: "rawptr frame" where
  "dangling_start = \<lparr>mem = empty_memory, pointer1 = nullptr, pointer2 = nullptr, cout = []\<rparr>"

text \<open>\<^verbatim>\<open>int* pointer1 = new int{67};\<close>\<close>

definition decl_pointer1 :: "addr option \<Rightarrow> rawptr frame \<Rightarrow> rawptr frame result" where
  "decl_pointer1 fresh s =
     (case new_int fresh 67 (mem s) of
        Inl e \<Rightarrow> Halt (Uncaught e) s
      | Inr (p, m) \<Rightarrow> Continue (s\<lparr>mem := m, pointer1 := p\<rparr>))"

text \<open>\<^verbatim>\<open>int* pointer2 = pointer1;\<close>\<close>

definition decl_pointer2 :: "rawptr frame \<Rightarrow> rawptr frame result" where
  "decl_pointer2 s = Continue (s\<lparr>pointer2 := pointer1 s\<rparr>)"

text \<open>\<^verbatim>\<open>std::cout << "Allocation succeeded.\n";\<close>\<close>

definition print_succeeded :: "rawptr frame \<Rightarrow> rawptr frame result" where
  "print_succeeded s = Continue (put (Str (''Allocation succeeded.'' @ newline)) s)"

text \<open>\<^verbatim>\<open>std::cout << "pointer1: " << pointer1 << " -> " << *pointer1 << std::endl;\<close>\<close>

definition print_pointer1 :: "int option \<Rightarrow> rawptr frame \<Rightarrow> rawptr frame result" where
  "print_pointer1 stale s =
     and_then
       (put_deref stale (pointer1 s)
          (put (Str '' -> '') (put (Address (pointer1 s)) (put (Str ''pointer1: '') s))))
       (\<lambda>s. Continue (put Endl s))"

text \<open>\<^verbatim>\<open>std::cout << "pointer2: " << pointer2 << " -> " << *pointer2 << std::endl;\<close>\<close>

definition print_pointer2 :: "int option \<Rightarrow> rawptr frame \<Rightarrow> rawptr frame result" where
  "print_pointer2 stale s =
     and_then
       (put_deref stale (pointer2 s)
          (put (Str '' -> '') (put (Address (pointer2 s)) (put (Str ''pointer2: '') s))))
       (\<lambda>s. Continue (put Endl s))"

text \<open>\<^verbatim>\<open>if (pointer1 != nullptr){ ... }\<close> with the three output statements as its body.\<close>

definition null_check :: "int option \<Rightarrow> rawptr frame \<Rightarrow> rawptr frame result" where
  "null_check stale s =
     (if pointer1 s \<noteq> nullptr
      then and_then (and_then (print_succeeded s) (print_pointer1 stale)) (print_pointer2 stale)
      else Continue s)"

text \<open>\<^verbatim>\<open>delete pointer1;\<close>\<close>

definition delete_pointer1 :: "rawptr frame \<Rightarrow> rawptr frame result" where
  "delete_pointer1 s =
     (case delete_int (pointer1 s) (mem s) of
        Inl f \<Rightarrow> Halt (Undefined f) s
      | Inr m \<Rightarrow> Continue (s\<lparr>mem := m\<rparr>))"

text \<open>\<^verbatim>\<open>pointer1 = nullptr;\<close>\<close>

definition reset_pointer1 :: "rawptr frame \<Rightarrow> rawptr frame result" where
  "reset_pointer1 s = Continue (s\<lparr>pointer1 := nullptr\<rparr>)"

text \<open>
  The last output statement,
  \<^verbatim>\<open>std::cout << "pointer2 after delete: " << pointer2 << " -> " << *pointer2
            << "  (undefined behavior -- for demonstration only!)" << std::endl;\<close>
  where the source has an em dash (three bytes in UTF-8) for \<open>--\<close>.
\<close>

definition remark :: string where
  "remark = ''  (undefined behavior '' @ [CHR 0xE2, CHR 0x80, CHR 0x94]
              @ '' for demonstration only!)''"

definition print_after_delete :: "int option \<Rightarrow> rawptr frame \<Rightarrow> rawptr frame result" where
  "print_after_delete stale s =
     and_then
       (put_deref stale (pointer2 s)
          (put (Str '' -> '')
             (put (Address (pointer2 s)) (put (Str ''pointer2 after delete: '') s))))
       (\<lambda>s. Continue (put Endl (put (Str remark) s)))"

text \<open>\<^verbatim>\<open>return 0;\<close> Raw pointers have no destructor: leaving the scope releases nothing.\<close>

definition return_0 :: "'p frame \<Rightarrow> 'p frame result" where
  "return_0 s = Halt (Exit 0) s"

definition dangling_pointer_body :: "platform \<Rightarrow> (rawptr frame \<Rightarrow> rawptr frame result) list" where
  "dangling_pointer_body p =
     [decl_pointer1 (on_new p), decl_pointer2, null_check (on_stale p), delete_pointer1,
      reset_pointer1, print_after_delete (on_stale p), return_0]"

definition dangling_pointer_main :: "platform \<Rightarrow> rawptr frame run" where
  "dangling_pointer_main p = exec (dangling_pointer_body p) dangling_start"

section \<open>The scoped demo: \<open>unique_pointer_demo.cpp\<close>\<close>

text \<open>
  \<open>std::unique_ptr<int>\<close> wraps one raw pointer, \<open>get\<close> returns it. The operations are
  those of the standard library: \<open>make_unique\<close> allocates, \<open>operator bool\<close> is
  \<open>get() != nullptr\<close>, \<open>operator*\<close> is \<open>*get()\<close>, the move constructor takes the
  pointer of its argument and leaves the argument null, the destructor deletes a
  pointer that is not null.
\<close>

datatype unique_ptr = unique_ptr (get: rawptr)

definition make_unique :: "addr option \<Rightarrow> int \<Rightarrow> memory \<Rightarrow> exn + unique_ptr \<times> memory" where
  "make_unique fresh v m =
     (case new_int fresh v m of Inl e \<Rightarrow> Inl e | Inr (p, m') \<Rightarrow> Inr (unique_ptr p, m'))"

definition operator_bool :: "unique_ptr \<Rightarrow> bool" where
  "operator_bool u = (get u \<noteq> nullptr)"

text \<open>The pair is (the handle constructed, what is left of the argument).\<close>

definition move_construct :: "unique_ptr \<Rightarrow> unique_ptr \<times> unique_ptr" where
  "move_construct u = (unique_ptr (get u), unique_ptr nullptr)"

definition destroy :: "unique_ptr \<Rightarrow> memory \<Rightarrow> fault + memory" where
  "destroy u m = (if get u \<noteq> nullptr then delete_int (get u) m else Inr m)"

definition unique_start :: "unique_ptr frame" where
  "unique_start =
     \<lparr>mem = empty_memory, pointer1 = unique_ptr nullptr, pointer2 = unique_ptr nullptr,
      cout = []\<rparr>"

text \<open>\<^verbatim>\<open>std::unique_ptr<int> pointer1 = std::make_unique<int>(67);\<close>\<close>

definition make_pointer1 :: "addr option \<Rightarrow> unique_ptr frame \<Rightarrow> unique_ptr frame result" where
  "make_pointer1 fresh s =
     (case make_unique fresh 67 (mem s) of
        Inl e \<Rightarrow> Halt (Uncaught e) s
      | Inr (u, m) \<Rightarrow> Continue (s\<lparr>mem := m, pointer1 := u\<rparr>))"

text \<open>\<^verbatim>\<open>std::cout << "pointer1 -> " << pointer1.get() << " : value = " << *pointer1 << std::endl;\<close>\<close>

definition show_pointer1 :: "int option \<Rightarrow> unique_ptr frame \<Rightarrow> unique_ptr frame result" where
  "show_pointer1 stale s =
     and_then
       (put_deref stale (get (pointer1 s))
          (put (Str '' : value = '')
             (put (Address (get (pointer1 s))) (put (Str ''pointer1 -> '') s))))
       (\<lambda>s. Continue (put Endl s))"

text \<open>\<^verbatim>\<open>std::unique_ptr<int> pointer2 = std::move(pointer1);\<close>\<close>

definition move_pointer1 :: "unique_ptr frame \<Rightarrow> unique_ptr frame result" where
  "move_pointer1 s =
     (case move_construct (pointer1 s) of
        (made, left) \<Rightarrow> Continue (s\<lparr>pointer1 := left, pointer2 := made\<rparr>))"

text \<open>\<^verbatim>\<open>if (!pointer1) { std::cout << "pointer1 is now null after move\n"; }\<close>\<close>

definition report_null :: "unique_ptr frame \<Rightarrow> unique_ptr frame result" where
  "report_null s =
     (if \<not> operator_bool (pointer1 s)
      then Continue (put (Str (''pointer1 is now null after move'' @ newline)) s)
      else Continue s)"

text \<open>\<^verbatim>\<open>std::cout << "pointer2 -> " << pointer2.get() << " : value = " << *pointer2 << std::endl;\<close>\<close>

definition show_pointer2 :: "int option \<Rightarrow> unique_ptr frame \<Rightarrow> unique_ptr frame result" where
  "show_pointer2 stale s =
     and_then
       (put_deref stale (get (pointer2 s))
          (put (Str '' : value = '')
             (put (Address (get (pointer2 s))) (put (Str ''pointer2 -> '') s))))
       (\<lambda>s. Continue (put Endl s))"

text \<open>
  \<^verbatim>\<open>return 0;\<close> leaves the scope of both handles: they are destroyed in the reverse
  order of their declarations, \<open>pointer2\<close> first, and then \<open>main\<close> returns.
\<close>

definition end_of_pointer2 :: "unique_ptr frame \<Rightarrow> unique_ptr frame result" where
  "end_of_pointer2 s =
     (case destroy (pointer2 s) (mem s) of
        Inl f \<Rightarrow> Halt (Undefined f) s
      | Inr m \<Rightarrow> Continue (s\<lparr>mem := m, pointer2 := unique_ptr nullptr\<rparr>))"

definition end_of_pointer1 :: "unique_ptr frame \<Rightarrow> unique_ptr frame result" where
  "end_of_pointer1 s =
     (case destroy (pointer1 s) (mem s) of
        Inl f \<Rightarrow> Halt (Undefined f) s
      | Inr m \<Rightarrow> Continue (s\<lparr>mem := m, pointer1 := unique_ptr nullptr\<rparr>))"

definition unique_pointer_demo_body ::
  "platform \<Rightarrow> (unique_ptr frame \<Rightarrow> unique_ptr frame result) list" where
  "unique_pointer_demo_body p =
     [make_pointer1 (on_new p), show_pointer1 (on_stale p), move_pointer1, report_null,
      show_pointer2 (on_stale p), end_of_pointer2, end_of_pointer1, return_0]"

definition unique_pointer_demo_main :: "platform \<Rightarrow> unique_ptr frame run" where
  "unique_pointer_demo_main p = exec (unique_pointer_demo_body p) unique_start"

section \<open>What a run did\<close>

text \<open>
  Readings of a frame and of the record of memory events, used to state the properties:
  whether storage holds a live cell, the addresses allocated, released, read while live
  and read after release (each in the order of the events), and how many of the two
  handles of the scoped demo hold a given address.
\<close>

fun is_live :: "cell \<Rightarrow> bool" where
  "is_live (Live v) = True"
| "is_live Unallocated = False"
| "is_live Released = False"

fun allocated :: "mem_event list \<Rightarrow> addr list" where
  "allocated [] = []"
| "allocated (Alloc a # es) = a # allocated es"
| "allocated (e # es) = allocated es"

fun released :: "mem_event list \<Rightarrow> addr list" where
  "released [] = []"
| "released (Release a # es) = a # released es"
| "released (e # es) = released es"

fun live_reads :: "mem_event list \<Rightarrow> addr list" where
  "live_reads [] = []"
| "live_reads (Read a # es) = a # live_reads es"
| "live_reads (e # es) = live_reads es"

fun stale_reads :: "mem_event list \<Rightarrow> addr list" where
  "stale_reads [] = []"
| "stale_reads (StaleRead a # es) = a # stale_reads es"
| "stale_reads (e # es) = stale_reads es"

definition holders :: "unique_ptr frame \<Rightarrow> addr \<Rightarrow> nat" where
  "holders s b = length (filter (\<lambda>u. get u = Ptr b) [pointer1 s, pointer2 s])"

text \<open>
  The ownership invariant of the scoped demo: an address is held by exactly one handle
  when its cell is live, and by none otherwise.
\<close>

definition owned :: "unique_ptr frame \<Rightarrow> bool" where
  "owned s = (\<forall>b. holders s b = (if is_live (cells (mem s) b) then 1 else 0))"

text \<open>The frame a statement leaves, whether it completed or stopped the run.\<close>

fun frame_of :: "'s result \<Rightarrow> 's" where
  "frame_of (Continue s) = s"
| "frame_of (Halt f s) = s"

text \<open>Two frames with the same locals and the same cells (output and events may differ).\<close>

definition same_store :: "'p frame \<Rightarrow> 'p frame \<Rightarrow> bool" where
  "same_store s s' =
     (pointer1 s' = pointer1 s \<and> pointer2 s' = pointer2 s \<and> cells (mem s') = cells (mem s))"

section \<open>Properties of the two programs\<close>

lemmas run_defs = empty_memory_def return_0_def put_def put_deref_def at_point_def newline_def

lemmas dangling_defs = dangling_pointer_main_def dangling_pointer_body_def dangling_start_def
  decl_pointer1_def decl_pointer2_def null_check_def print_succeeded_def print_pointer1_def
  print_pointer2_def delete_pointer1_def reset_pointer1_def print_after_delete_def

lemmas unique_defs = unique_pointer_demo_main_def unique_pointer_demo_body_def unique_start_def
  make_unique_def operator_bool_def move_construct_def destroy_def make_pointer1_def
  show_pointer1_def move_pointer1_def report_null_def show_pointer2_def end_of_pointer2_def
  end_of_pointer1_def

subsection \<open>Each statement of the scoped demo keeps the ownership invariant\<close>

text \<open>
  The output statements change neither the locals nor the cells. The transfer keeps the
  invariant when the destination is empty, the allocation when the source is empty and
  the storage handed out is not live, and the two destructors always.
\<close>

lemma holders_sum:
  "holders s b =
     (if get (pointer1 s) = Ptr b then 1 else 0) + (if get (pointer2 s) = Ptr b then 1 else 0)"
  by (simp add: holders_def)

lemma same_store_owned: "same_store s s' \<Longrightarrow> owned s \<Longrightarrow> owned s'"
  by (simp add: same_store_def owned_def holders_sum)

lemma same_store_trans: "same_store s s' \<Longrightarrow> same_store s' s'' \<Longrightarrow> same_store s s''"
  by (simp add: same_store_def)

lemma same_store_put: "same_store s (put t s)"
  by (simp add: same_store_def put_def)

lemma deref_cells: "cells (snd (deref st q m)) = cells m"
  by (cases q) (simp_all split: cell.splits)

lemma same_store_put_deref: "same_store s (frame_of (put_deref st q s))"
  using deref_cells [of st q "mem s"]
  by (cases "deref st q (mem s)")
     (auto simp: put_deref_def same_store_def put_def split: sum.splits)

lemma same_store_endl:
  "same_store s (frame_of x) \<Longrightarrow>
   same_store s (frame_of (and_then x (\<lambda>s. Continue (put Endl s))))"
  by (cases x) (simp_all add: same_store_def put_def)

lemma same_store_show_pointer1: "same_store s (frame_of (show_pointer1 st s))"
  unfolding show_pointer1_def
  by (intro same_store_endl same_store_trans [OF _ same_store_put_deref])
     (simp add: same_store_def put_def)

lemma same_store_show_pointer2: "same_store s (frame_of (show_pointer2 st s))"
  unfolding show_pointer2_def
  by (intro same_store_endl same_store_trans [OF _ same_store_put_deref])
     (simp add: same_store_def put_def)

lemma same_store_report_null: "same_store s (frame_of (report_null s))"
  by (simp add: report_null_def same_store_def put_def)

lemma move_pointer1_owned:
  "owned s \<Longrightarrow> get (pointer2 s) = nullptr \<Longrightarrow> owned (frame_of (move_pointer1 s))"
  by (simp add: move_pointer1_def move_construct_def owned_def holders_sum)

lemma make_pointer1_owned:
  assumes "owned s" and "get (pointer1 s) = nullptr"
    and "\<And>a. f = Some a \<Longrightarrow> \<not> is_live (cells (mem s) a)"
  shows "owned (frame_of (make_pointer1 f s))"
proof (cases f)
  case None
  with assms(1) show ?thesis by (simp add: make_pointer1_def make_unique_def)
next
  case (Some a)
  with assms have dead: "\<not> is_live (cells (mem s) a)" and "get (pointer2 s) \<noteq> Ptr a"
    by (auto simp: owned_def holders_sum split: if_splits)
  with Some assms(1,2) show ?thesis
    by (simp add: make_pointer1_def make_unique_def owned_def holders_sum)
qed

lemma holder_is_live:
  assumes "owned s" and "get (pointer1 s) = Ptr a \<or> get (pointer2 s) = Ptr a"
  shows "is_live (cells (mem s) a)"
    and "(get (pointer1 s) = Ptr a) \<noteq> (get (pointer2 s) = Ptr a)"
proof -
  from assms(1) have "holders s a = (if is_live (cells (mem s) a) then 1 else 0)"
    by (simp add: owned_def)
  with assms(2) show "is_live (cells (mem s) a)"
    and "(get (pointer1 s) = Ptr a) \<noteq> (get (pointer2 s) = Ptr a)"
    by (auto simp: holders_sum split: if_splits)
qed

lemma end_of_pointer2_owned:
  assumes "owned s"
  shows "owned (frame_of (end_of_pointer2 s))"
proof (cases "get (pointer2 s)")
  case nullptr
  with assms show ?thesis
    by (simp add: end_of_pointer2_def destroy_def owned_def holders_sum)
next
  case (Ptr a)
  with holder_is_live [OF assms, of a]
  obtain v where live: "cells (mem s) a = Live v" and other: "get (pointer1 s) \<noteq> Ptr a"
    by (cases "cells (mem s) a") auto
  show ?thesis
    unfolding owned_def
  proof
    fix b
    from assms have "holders s b = (if is_live (cells (mem s) b) then 1 else 0)"
      by (simp add: owned_def)
    with Ptr live other
    show "holders (frame_of (end_of_pointer2 s)) b =
            (if is_live (cells (mem (frame_of (end_of_pointer2 s))) b) then 1 else 0)"
      by (cases "b = a") (simp_all add: end_of_pointer2_def destroy_def holders_sum)
  qed
qed

lemma end_of_pointer1_owned:
  assumes "owned s"
  shows "owned (frame_of (end_of_pointer1 s))"
proof (cases "get (pointer1 s)")
  case nullptr
  with assms show ?thesis
    by (simp add: end_of_pointer1_def destroy_def owned_def holders_sum)
next
  case (Ptr a)
  with holder_is_live [OF assms, of a]
  obtain v where live: "cells (mem s) a = Live v" and other: "get (pointer2 s) \<noteq> Ptr a"
    by (cases "cells (mem s) a") auto
  show ?thesis
    unfolding owned_def
  proof
    fix b
    from assms have "holders s b = (if is_live (cells (mem s) b) then 1 else 0)"
      by (simp add: owned_def)
    with Ptr live other
    show "holders (frame_of (end_of_pointer1 s)) b =
            (if is_live (cells (mem (frame_of (end_of_pointer1 s))) b) then 1 else 0)"
      by (cases "b = a") (simp_all add: end_of_pointer1_def destroy_def holders_sum)
  qed
qed

subsection \<open>The scoped demo\<close>

text \<open>
  C1. In the scoped demo, in every run, the frame right after the transfer of ownership
  (boundary 3, before the emptiness check) has the source handle \<open>pointer1\<close> empty and
  a read through the destination handle \<open>pointer2\<close> yields 67; the run then prints that
  \<open>pointer1\<close> is null and prints 67 as the value of \<open>pointer2\<close>. Every run whose
  allocation succeeds comes to that boundary.
\<close>

theorem scoped_transfer:
  "(on_new p \<noteq> None \<longrightarrow> at_point 3 (unique_pointer_demo_main p) \<noteq> None) \<and>
   (\<forall>s. at_point 3 (unique_pointer_demo_main p) = Some s \<longrightarrow>
      \<not> operator_bool (pointer1 s) \<and>
      fst (deref (on_stale p) (get (pointer2 s)) (mem s)) = Inr 67 \<and>
      drop 5 (cout (stopped (unique_pointer_demo_main p))) =
        [Str (''pointer1 is now null after move'' @ newline), Str ''pointer2 -> '',
         Address (get (pointer2 s)), Str '' : value = '', Value 67, Endl])"
proof (cases "on_new p")
  case None
  \<comment> \<open>the allocation throws: the run ends at boundary 0\<close>
  then show ?thesis by (simp add: unique_defs run_defs)
next
  case (Some a)
  then show ?thesis by (simp add: unique_defs run_defs)
qed

theorem scoped_transfer_witness:
  "at_point 3 (unique_pointer_demo_main \<lparr>on_new = Some 5, on_stale = None\<rparr>) \<noteq> None \<and>
   \<not> operator_bool
       (pointer1 (reached (unique_pointer_demo_main \<lparr>on_new = Some 5, on_stale = None\<rparr>) ! 3)) \<and>
   drop 5 (cout (stopped (unique_pointer_demo_main \<lparr>on_new = Some 5, on_stale = None\<rparr>))) =
     [Str (''pointer1 is now null after move'' @ newline), Str ''pointer2 -> '',
      Address (Ptr 5), Str '' : value = '', Value 67, Endl]"
  using scoped_transfer [of "\<lparr>on_new = Some 5, on_stale = None\<rparr>"]
  by (simp add: unique_defs run_defs)

text \<open>
  C2. In the scoped demo, in every run and at every frame of it (every statement boundary
  and the frame in which the run ends), each live cell is held by exactly one of the two
  handles and no handle holds an address without a live cell; at every boundary after
  the transfer the source handle \<open>pointer1\<close> is empty.
  When the allocation succeeds at \<open>a\<close>, the cell at \<open>a\<close> is live at the boundaries 1 to 5
  (from the allocation to the end of the scope of \<open>pointer2\<close>), held first by \<open>pointer1\<close>
  and from the transfer on by \<open>pointer2\<close>.
  Every statement of the program keeps the invariant, from any frame that has it: the
  output statements, the emptiness check, both destructors and the return always, the
  transfer when \<open>pointer2\<close> is empty, the allocation when \<open>pointer1\<close> is empty and the
  storage handed out is not live.
\<close>

theorem single_owner:
  assumes "r = unique_pointer_demo_main p"
  shows "(\<forall>s \<in> set (reached r @ [stopped r]). owned s) \<and>
         (\<forall>s \<in> set (drop 3 (reached r)). get (pointer1 s) = nullptr) \<and>
         (\<forall>a. on_new p = Some a \<longrightarrow>
            map (\<lambda>s. is_live (cells (mem s) a)) (reached r) =
              [False, True, True, True, True, True, False, False] \<and>
            map (\<lambda>s. get (pointer1 s) = Ptr a) (reached r) =
              [False, True, True, False, False, False, False, False] \<and>
            map (\<lambda>s. get (pointer2 s) = Ptr a) (reached r) =
              [False, False, False, True, True, True, False, False]) \<and>
         (\<forall>s. owned s \<longrightarrow>
            owned (frame_of (show_pointer1 st s)) \<and> owned (frame_of (report_null s)) \<and>
            owned (frame_of (show_pointer2 st s)) \<and> owned (frame_of (end_of_pointer2 s)) \<and>
            owned (frame_of (end_of_pointer1 s)) \<and> owned (frame_of (return_0 s)) \<and>
            (get (pointer2 s) = nullptr \<longrightarrow> owned (frame_of (move_pointer1 s))) \<and>
            (get (pointer1 s) = nullptr \<and> (\<forall>a. f = Some a \<longrightarrow> \<not> is_live (cells (mem s) a)) \<longrightarrow>
               owned (frame_of (make_pointer1 f s))))"
    (is "?frames \<and> ?source \<and> ?life \<and> ?steps")
proof -
  have run: "?frames \<and> ?source \<and> ?life"
  proof (cases "on_new p")
    case None
    \<comment> \<open>no cell is ever allocated and both handles stay empty\<close>
    with assms show ?thesis by (simp add: unique_defs run_defs owned_def holders_def)
  next
    case (Some a)
    with assms show ?thesis by (simp add: unique_defs run_defs owned_def holders_def)
  qed
  have ?steps
  proof (intro allI impI conjI)
    fix s assume inv: "owned s"
    from inv show "owned (frame_of (show_pointer1 st s))"
      by (rule same_store_owned [OF same_store_show_pointer1])
    from inv show "owned (frame_of (report_null s))"
      by (rule same_store_owned [OF same_store_report_null])
    from inv show "owned (frame_of (show_pointer2 st s))"
      by (rule same_store_owned [OF same_store_show_pointer2])
    from inv show "owned (frame_of (end_of_pointer2 s))"
      by (rule end_of_pointer2_owned)
    from inv show "owned (frame_of (end_of_pointer1 s))"
      by (rule end_of_pointer1_owned)
    from inv show "owned (frame_of (return_0 s))"
      by (simp add: return_0_def)
    show "owned (frame_of (move_pointer1 s))" if "get (pointer2 s) = nullptr"
      using inv that by (rule move_pointer1_owned)
    show "owned (frame_of (make_pointer1 f s))"
      if "get (pointer1 s) = nullptr \<and> (\<forall>a. f = Some a \<longrightarrow> \<not> is_live (cells (mem s) a))"
      using inv that by (intro make_pointer1_owned) simp_all
  qed
  with run show ?thesis by simp
qed

theorem single_owner_witness:
  "is_live (cells (mem (reached (unique_pointer_demo_main \<lparr>on_new = Some 5, on_stale = None\<rparr>) ! 4)) 5) \<and>
   holders (reached (unique_pointer_demo_main \<lparr>on_new = Some 5, on_stale = None\<rparr>) ! 4) 5 = 1 \<and>
   get (pointer1 (reached (unique_pointer_demo_main \<lparr>on_new = Some 5, on_stale = None\<rparr>) ! 4)) = nullptr"
  using single_owner [OF refl, of "\<lparr>on_new = Some 5, on_stale = None\<rparr>", THEN conjunct1]
  by (simp add: unique_defs run_defs owned_def holders_def)

text \<open>
  C8. In the scoped demo, in every run, the cells released by the end of the run are
  the cells allocated, each once (at most one cell), no cell is live when the run ends
  and no released storage was ever read (the run is the same whatever a read of
  released storage would do). Nothing is released at any boundary up to the
  end of the scope (boundaries 0 to 5: no statement of the program releases the cell);
  at boundary 5 the cell is live and held by the destination handle \<open>pointer2\<close> alone,
  the destructor of \<open>pointer2\<close> releases it, and the destructor of \<open>pointer1\<close>, which
  runs next, changes nothing. When the allocation succeeds, exactly one cell is
  allocated and the run comes to the end of the scope and exits with 0.
\<close>

theorem released_once_at_scope_end:
  assumes "r = unique_pointer_demo_main p"
  shows "released (events (mem (stopped r))) = allocated (events (mem (stopped r))) \<and>
         length (allocated (events (mem (stopped r)))) \<le> 1 \<and>
         (\<forall>b. \<not> is_live (cells (mem (stopped r)) b)) \<and>
         stale_reads (events (mem (stopped r))) = [] \<and>
         (\<forall>x. unique_pointer_demo_main (p\<lparr>on_stale := x\<rparr>) = r) \<and>
         (\<forall>s \<in> set (take 6 (reached r)). released (events (mem s)) = []) \<and>
         (\<forall>s. at_point 5 r = Some s \<longrightarrow>
            (\<exists>a s'. get (pointer2 s) = Ptr a \<and> get (pointer1 s) = nullptr \<and>
               is_live (cells (mem s) a) \<and>
               end_of_pointer2 s = Continue s' \<and> at_point 6 r = Some s' \<and>
               cells (mem s') a = Released \<and> released (events (mem s')) = [a] \<and>
               end_of_pointer1 s' = Continue s')) \<and>
         (on_new p \<noteq> None \<longrightarrow>
            at_point 5 r \<noteq> None \<and> length (allocated (events (mem (stopped r)))) = 1 \<and>
            outcome r = Some (Exit 0))"
  using assms by (cases "on_new p") (simp_all add: unique_defs run_defs)

theorem released_once_at_scope_end_witness:
  "released (events (mem (stopped (unique_pointer_demo_main \<lparr>on_new = Some 5, on_stale = None\<rparr>)))) = [5] \<and>
   released (events (mem (reached (unique_pointer_demo_main \<lparr>on_new = Some 5, on_stale = None\<rparr>) ! 5))) = [] \<and>
   get (pointer2 (reached (unique_pointer_demo_main \<lparr>on_new = Some 5, on_stale = None\<rparr>) ! 5)) = Ptr 5 \<and>
   outcome (unique_pointer_demo_main \<lparr>on_new = Some 5, on_stale = None\<rparr>) = Some (Exit 0)"
  using released_once_at_scope_end [OF refl, of "\<lparr>on_new = Some 5, on_stale = None\<rparr>"]
  by (simp add: unique_defs run_defs)

text \<open>
  C10. In the scoped demo, in every run, the transfer of ownership takes the frame
  before it (boundary 2) to the frame after it (boundary 3) with the free store
  unchanged, and the address \<open>pointer2.get()\<close> gives after the transfer is the address
  \<open>pointer1.get()\<close> gave before it, which is not null; these are the two addresses the
  program prints. Every run whose allocation succeeds comes to boundary 3.
\<close>

theorem move_keeps_address:
  assumes "r = unique_pointer_demo_main p"
  shows "(on_new p \<noteq> None \<longrightarrow> at_point 3 r \<noteq> None) \<and>
         (\<forall>s2 s3. at_point 2 r = Some s2 \<and> at_point 3 r = Some s3 \<longrightarrow>
            move_pointer1 s2 = Continue s3 \<and>
            get (pointer2 s3) = get (pointer1 s2) \<and> get (pointer1 s2) \<noteq> nullptr \<and>
            mem s3 = mem s2 \<and>
            cout (stopped r) =
              [Str ''pointer1 -> '', Address (get (pointer1 s2)), Str '' : value = '',
               Value 67, Endl,
               Str (''pointer1 is now null after move'' @ newline),
               Str ''pointer2 -> '', Address (get (pointer2 s3)), Str '' : value = '',
               Value 67, Endl])"
  using assms by (cases "on_new p") (simp_all add: unique_defs run_defs)

theorem move_keeps_address_witness:
  "get (pointer1 (reached (unique_pointer_demo_main \<lparr>on_new = Some 5, on_stale = None\<rparr>) ! 2)) = Ptr 5 \<and>
   get (pointer2 (reached (unique_pointer_demo_main \<lparr>on_new = Some 5, on_stale = None\<rparr>) ! 3)) = Ptr 5"
  using move_keeps_address [OF refl, of "\<lparr>on_new = Some 5, on_stale = None\<rparr>"]
  by (simp add: unique_defs run_defs)

subsection \<open>The unmanaged demo\<close>

text \<open>
  C3. In the unmanaged demo, in every run, no released storage has been read at any
  boundary up to the last output statement (boundaries 0 to 5). At boundary 5, where
  that statement starts, \<open>pointer2\<close> holds an address whose cell is released, the read
  \<open>*pointer2\<close> of the statement is recorded as a read of released storage, and it is the
  only such read of the whole run; the run ends either there, stopped by the access, or
  with exit status 0. Every run whose allocation succeeds comes to boundary 5, and a
  run whose allocation fails reads no released storage.
\<close>

theorem use_after_release_at_final_read:
  assumes "r = dangling_pointer_main p"
  shows "(on_new p \<noteq> None \<longrightarrow> at_point 5 r \<noteq> None) \<and>
         (on_new p = None \<longrightarrow> stale_reads (events (mem (stopped r))) = []) \<and>
         (\<forall>s \<in> set (take 6 (reached r)). stale_reads (events (mem s)) = []) \<and>
         (\<forall>s. at_point 5 r = Some s \<longrightarrow>
            (\<exists>a. pointer2 s = Ptr a \<and> cells (mem s) a = Released \<and>
               snd (deref (on_stale p) (pointer2 s) (mem s)) =
                 (mem s)\<lparr>events := events (mem s) @ [StaleRead a]\<rparr> \<and>
               events (mem (stopped r)) = events (mem s) @ [StaleRead a] \<and>
               stale_reads (events (mem (stopped r))) = [a] \<and>
               (outcome r = Some (Undefined (use_after_release a)) \<or>
                outcome r = Some (Exit 0))))"
  using assms
  by (cases "on_new p"; cases "on_stale p") (simp_all add: dangling_defs run_defs)

theorem use_after_release_at_final_read_witness:
  "stale_reads (events (mem (reached (dangling_pointer_main \<lparr>on_new = Some 5, on_stale = None\<rparr>) ! 5))) = [] \<and>
   stale_reads (events (mem (stopped (dangling_pointer_main \<lparr>on_new = Some 5, on_stale = None\<rparr>)))) = [5] \<and>
   outcome (dangling_pointer_main \<lparr>on_new = Some 5, on_stale = None\<rparr>) =
     Some (Undefined (use_after_release 5))"
  using use_after_release_at_final_read [OF refl, of "\<lparr>on_new = Some 5, on_stale = None\<rparr>"]
  by (simp add: dangling_defs run_defs)

text \<open>
  C4. In the unmanaged demo, in every run, at the boundary before the release
  (boundary 3) the two pointers are equal, nothing is released yet, and what has been
  printed is the success line, then for \<open>pointer1\<close> and for \<open>pointer2\<close> a line with that
  same address and the value 67. Every run whose allocation succeeds comes to that
  boundary.
\<close>

theorem aliases_agree_before_release:
  assumes "r = dangling_pointer_main p"
  shows "(on_new p \<noteq> None \<longrightarrow> at_point 3 r \<noteq> None) \<and>
         (\<forall>s. at_point 3 r = Some s \<longrightarrow>
            pointer1 s = pointer2 s \<and> released (events (mem s)) = [] \<and>
            cout s =
              [Str (''Allocation succeeded.'' @ newline),
               Str ''pointer1: '', Address (pointer1 s), Str '' -> '', Value 67, Endl,
               Str ''pointer2: '', Address (pointer2 s), Str '' -> '', Value 67, Endl])"
  using assms
  by (cases "on_new p"; cases "on_stale p") (simp_all add: dangling_defs run_defs)

theorem aliases_agree_before_release_witness:
  "cout (reached (dangling_pointer_main \<lparr>on_new = Some 5, on_stale = Some 0\<rparr>) ! 3) =
     [Str (''Allocation succeeded.'' @ newline),
      Str ''pointer1: '', Address (Ptr 5), Str '' -> '', Value 67, Endl,
      Str ''pointer2: '', Address (Ptr 5), Str '' -> '', Value 67, Endl]"
  using aliases_agree_before_release [OF refl, of "\<lparr>on_new = Some 5, on_stale = Some 0\<rparr>"]
  by (simp add: dangling_defs run_defs)

text \<open>
  C5. In the unmanaged demo, the guarded block run in any frame whose \<open>pointer1\<close> is
  null prints nothing, reads nothing and leaves the frame as it is. In every run, at
  the boundary where the guarded block starts (boundary 2) nothing has been printed
  and no cell has been read, and the frame at the next boundary, where the release
  starts (boundary 3), is the frame the guarded block produced from a non-null
  \<open>pointer1\<close>: every read and every line before the release is the guarded block's.
\<close>

theorem null_check_guards_reads:
  assumes "r = dangling_pointer_main p"
  shows "(pointer1 s = nullptr \<longrightarrow> null_check st s = Continue s) \<and>
         (\<forall>s2. at_point 2 r = Some s2 \<longrightarrow>
            cout s2 = [] \<and> live_reads (events (mem s2)) = [] \<and>
            stale_reads (events (mem s2)) = []) \<and>
         (\<forall>s2 s3. at_point 2 r = Some s2 \<and> at_point 3 r = Some s3 \<longrightarrow>
            pointer1 s2 \<noteq> nullptr \<and> null_check (on_stale p) s2 = Continue s3 \<and>
            length (live_reads (events (mem s3))) = 2)"
  using assms
  by (cases "on_new p"; cases "on_stale p") (simp_all add: dangling_defs run_defs)

theorem null_check_guards_reads_witness:
  "null_check None dangling_start = Continue dangling_start \<and>
   cout (reached (dangling_pointer_main \<lparr>on_new = Some 5, on_stale = Some 0\<rparr>) ! 2) = [] \<and>
   pointer1 (reached (dangling_pointer_main \<lparr>on_new = Some 5, on_stale = Some 0\<rparr>) ! 2) = Ptr 5 \<and>
   live_reads (events (mem (reached (dangling_pointer_main \<lparr>on_new = Some 5, on_stale = Some 0\<rparr>) ! 3)))
     = [5, 5]"
  using null_check_guards_reads
    [OF refl, of dangling_start None "\<lparr>on_new = Some 5, on_stale = Some 0\<rparr>"]
  by (simp add: dangling_defs run_defs)

text \<open>
  C6. In the unmanaged demo, in every run, from the boundary before the release
  (boundary 3) over the boundary between \<open>delete pointer1\<close> and \<open>pointer1 = nullptr\<close>
  (boundary 4) to the boundary after both (boundary 5): the cell \<open>pointer1\<close> points to
  is live with 67 before and released after \<open>delete\<close>, with one release recorded and no
  other cell touched; \<open>pointer1\<close> still holds the address after \<open>delete\<close> and is null
  after the assignment; \<open>pointer2\<close> holds the original address at all three boundaries.
  The statement that follows prints \<open>pointer2\<close> with that address and reads through
  it. Every run whose allocation succeeds comes to boundary 5.
\<close>

theorem release_clears_pointer1_only:
  assumes "r = dangling_pointer_main p"
  shows "(on_new p \<noteq> None \<longrightarrow> at_point 5 r \<noteq> None) \<and>
         (\<forall>s3 s4 s5. at_point 3 r = Some s3 \<and> at_point 4 r = Some s4 \<and> at_point 5 r = Some s5 \<longrightarrow>
            (\<exists>a. pointer1 s3 = Ptr a \<and> pointer2 s3 = Ptr a \<and> cells (mem s3) a = Live 67 \<and>
               delete_pointer1 s3 = Continue s4 \<and>
               pointer1 s4 = Ptr a \<and> pointer2 s4 = Ptr a \<and> cells (mem s4) a = Released \<and>
               events (mem s4) = events (mem s3) @ [Release a] \<and>
               (\<forall>b. b \<noteq> a \<longrightarrow> cells (mem s4) b = cells (mem s3) b) \<and>
               reset_pointer1 s4 = Continue s5 \<and>
               pointer1 s5 = nullptr \<and> pointer2 s5 = Ptr a \<and> mem s5 = mem s4 \<and>
               cout s5 = cout s3 \<and>
               take 3 (drop (length (cout s5)) (cout (stopped r))) =
                 [Str ''pointer2 after delete: '', Address (Ptr a), Str '' -> ''] \<and>
               events (mem (stopped r)) = events (mem s5) @ [StaleRead a]))"
  using assms
  by (cases "on_new p"; cases "on_stale p") (simp_all add: dangling_defs run_defs)

theorem release_clears_pointer1_only_witness:
  "pointer1 (reached (dangling_pointer_main \<lparr>on_new = Some 5, on_stale = Some 0\<rparr>) ! 3) = Ptr 5 \<and>
   pointer1 (reached (dangling_pointer_main \<lparr>on_new = Some 5, on_stale = Some 0\<rparr>) ! 5) = nullptr \<and>
   pointer2 (reached (dangling_pointer_main \<lparr>on_new = Some 5, on_stale = Some 0\<rparr>) ! 5) = Ptr 5 \<and>
   cells (mem (reached (dangling_pointer_main \<lparr>on_new = Some 5, on_stale = Some 0\<rparr>) ! 5)) 5 = Released"
  using release_clears_pointer1_only [OF refl, of "\<lparr>on_new = Some 5, on_stale = Some 0\<rparr>"]
  by (simp add: dangling_defs run_defs)

text \<open>
  C9. A \<open>new\<close> that returns never returns the null pointer. In the unmanaged demo, a run
  whose allocation fails ends at the allocation with the uncaught \<open>std::bad_alloc\<close> and
  prints nothing; in every run that comes to the null check (boundary 2), \<open>pointer1\<close>
  is not null, the guarded block runs to its end, and what has been printed after it is
  the success line and the address and value lines of both pointers.
\<close>

theorem allocation_never_null:
  assumes "r = dangling_pointer_main p"
  shows "(\<forall>q m'. new_int f v m = Inr (q, m') \<longrightarrow> q \<noteq> nullptr) \<and>
         (on_new p = None \<longrightarrow>
            outcome r = Some (Uncaught bad_alloc) \<and> at_point 1 r = None \<and>
            cout (stopped r) = []) \<and>
         (\<forall>s. at_point 2 r = Some s \<longrightarrow>
            pointer1 s \<noteq> nullptr \<and>
            (\<exists>s'. null_check (on_stale p) s = Continue s' \<and> at_point 3 r = Some s' \<and>
               cout s' =
                 [Str (''Allocation succeeded.'' @ newline),
                  Str ''pointer1: '', Address (pointer1 s), Str '' -> '', Value 67, Endl,
                  Str ''pointer2: '', Address (pointer2 s), Str '' -> '', Value 67, Endl]))"
  using assms
  by (cases f; cases "on_new p"; cases "on_stale p") (simp_all add: dangling_defs run_defs)

theorem allocation_never_null_witness:
  "fst (projr (new_int (Some 5) 67 empty_memory)) \<noteq> nullptr \<and>
   pointer1 (reached (dangling_pointer_main \<lparr>on_new = Some 5, on_stale = None\<rparr>) ! 2) \<noteq> nullptr \<and>
   take 1 (cout (reached (dangling_pointer_main \<lparr>on_new = Some 5, on_stale = None\<rparr>) ! 3)) =
     [Str (''Allocation succeeded.'' @ newline)]"
  using allocation_never_null
    [OF refl, of "Some 5" 67 empty_memory "\<lparr>on_new = Some 5, on_stale = None\<rparr>"]
  by (simp add: dangling_defs run_defs)

subsection \<open>How the two programs end\<close>

text \<open>
  C7, as amended. Every run of either program ends. The scoped demo exits with status 0
  on every run whose allocation succeeds. The unmanaged demo exits with status 0 on
  every run whose allocation succeeds and in which the read of released storage yields
  a value; where that read stops the process, the run ends there, before
  \<open>return 0\<close>. A failed allocation ends either program with the uncaught
  \<open>std::bad_alloc\<close>.
\<close>

theorem exit_status:
  "outcome (unique_pointer_demo_main p) =
     (case on_new p of None \<Rightarrow> Some (Uncaught bad_alloc) | Some a \<Rightarrow> Some (Exit 0)) \<and>
   outcome (dangling_pointer_main p) =
     (case on_new p of
        None \<Rightarrow> Some (Uncaught bad_alloc)
      | Some a \<Rightarrow>
          (case on_stale p of
             None \<Rightarrow> Some (Undefined (use_after_release a))
           | Some v \<Rightarrow> Some (Exit 0)))"
  by (cases "on_new p"; cases "on_stale p")
     (simp_all add: dangling_defs unique_defs run_defs)

text \<open>
  C7 as stated fails: a run of the unmanaged demo in which the read of released storage
  stops the process does not exit with status 0.
\<close>

theorem exit_status_counterexample:
  "outcome (dangling_pointer_main \<lparr>on_new = Some 0, on_stale = None\<rparr>) =
     Some (Undefined (use_after_release 0)) \<and>
   outcome (dangling_pointer_main \<lparr>on_new = Some 0, on_stale = None\<rparr>) \<noteq> Some (Exit 0)"
  by (simp add: dangling_defs run_defs)

end
